theory Spec2Isabelle
  imports Complex_Main "HOL-Library.Log_Nat"
begin

section \<open>Python values and exceptions\<close>

text \<open>
  The module \<^verbatim>\<open>unet_3d_model.py\<close> builds a 3D U-Net with the Keras functional API.
  Python integers are unbounded and are modelled by \<^typ>\<open>int\<close>; tuples of integers
  (\<^verbatim>\<open>input_shape\<close>, \<^verbatim>\<open>pool_size\<close>, \<^verbatim>\<open>image_shape\<close>) by \<^typ>\<open>int list\<close>; a tuple that
  may hold \<^verbatim>\<open>None\<close> by \<^typ>\<open>int option list\<close>. Every \<^verbatim>\<open>raise\<close> of the module, and every
  exception of an operation it calls, is a value \<open>Inl e\<close> of the result type.
\<close>

datatype error =
    ImportError string
  | NotImplementedError string
  | ZeroDivisionError
  | OverflowError
  | ValueError
  | IndexError

definition bind_err :: "error + 'a \<Rightarrow> ('a \<Rightarrow> error + 'b) \<Rightarrow> error + 'b" where
  "bind_err m k = (case m of Inl e \<Rightarrow> Inl e | Inr x \<Rightarrow> k x)"

text \<open>
  \<^verbatim>\<open>a / b\<close> on two Python integers is true division and raises on a zero divisor;
  \<^verbatim>\<open>int(q)\<close> truncates toward zero. The quotient is kept exact (a rational): for the
  numerators of this module (at most 512) the float quotient of two integers lies on
  the same side of every integer as the exact one, so the truncation agrees.
  A float-valued \<^verbatim>\<open>downsize_filters_factor\<close> is outside this embedding.
\<close>

definition py_truediv :: "int \<Rightarrow> int \<Rightarrow> error + rat" where
  "py_truediv a b = (if b = 0 then Inl ZeroDivisionError else Inr (of_int a / of_int b))"

definition py_int :: "rat \<Rightarrow> int" where
  "py_int q = (if 0 \<le> q then \<lfloor>q\<rfloor> else \<lceil>q\<rceil>)"

text \<open>The expression \<^verbatim>\<open>int(base / downsize_filters_factor)\<close>.\<close>

definition int_truediv :: "int \<Rightarrow> int \<Rightarrow> error + int" where
  "int_truediv base f = bind_err (py_truediv base f) (\<lambda>q. Inr (py_int q))"

section \<open>The numpy operations of \<^verbatim>\<open>compute_level_output_shape\<close>\<close>

text \<open>
  numpy turns a tuple of Python integers into an array of int64, and the embedding covers
  arguments in that range. \<^verbatim>\<open>np.multiply(pool_size, depth)\<close> scales every component by the
  scalar in int64 arithmetic: a product outside the range wraps around.
\<close>

definition wrap_int64 :: "int \<Rightarrow> int" where
  "wrap_int64 x = (x + 2 ^ 63) mod 2 ^ 64 - 2 ^ 63"

definition np_multiply :: "int list \<Rightarrow> int \<Rightarrow> int list" where
  "np_multiply xs k = map (\<lambda>x. wrap_int64 (x * k)) xs"

text \<open>
  A float64 has a significand of 53 bits. \<open>float64 q\<close> is the float nearest to \<open>q\<close>, a tie
  going to the even significand: with \<open>2 ^ (e + 52) \<le> |q| < 2 ^ (e + 53)\<close> it is the nearest
  multiple of \<open>2 ^ e\<close>. The exponent range of float64 is not reached by an int64 or by the
  quotient of two of them, so the exponent is left unbounded.
\<close>

definition round_half_even :: "rat \<Rightarrow> int" where
  "round_half_even x =
     (let n = \<lfloor>x\<rfloor>; r = x - of_int n
      in if r < 1 / 2 then n else if 1 / 2 < r then n + 1 else if even n then n else n + 1)"

definition float_exponent :: "rat \<Rightarrow> int" where
  "float_exponent q =
     (case quotient_of \<bar>q\<bar> of (n, d) \<Rightarrow>
        let k = bitlen n - bitlen d in (if 2 powi k \<le> \<bar>q\<bar> then k else k - 1) - 52)"

definition float64 :: "rat \<Rightarrow> rat" where
  "float64 q = (let e = float_exponent q in of_int (round_half_even (q / 2 powi e)) * 2 powi e)"

text \<open>
  \<^verbatim>\<open>np.divide\<close> is elementwise true division on float64: both int64 operands are converted
  to float64 and the quotient is rounded. A zero divisor does not raise but gives an
  infinity, or a NaN for \<open>0 / 0\<close>. Two one-dimensional operands broadcast when their lengths
  agree or one of them is 1, and raise otherwise. \<^verbatim>\<open>int\<close> of an infinity raises
  OverflowError and \<^verbatim>\<open>int\<close> of a NaN raises ValueError.
\<close>

datatype npfloat = Finite rat | Infinite | NaN

definition float_divide :: "int \<Rightarrow> int \<Rightarrow> npfloat" where
  "float_divide a b =
     (if b = 0 then (if a = 0 then NaN else Infinite)
      else Finite (float64 (float64 (of_int a) / float64 (of_int b))))"

definition np_divide :: "int list \<Rightarrow> int list \<Rightarrow> error + npfloat list" where
  "np_divide xs ys =
     (if length xs = length ys then Inr (map2 float_divide xs ys)
      else if length ys = 1 then Inr (map (\<lambda>x. float_divide x (hd ys)) xs)
      else if length xs = 1 then Inr (map (\<lambda>y. float_divide (hd xs) y) ys)
      else Inl ValueError)"

fun int_of_float :: "npfloat \<Rightarrow> error + int" where
  "int_of_float (Finite q) = Inr (py_int q)"
| "int_of_float Infinite = Inl OverflowError"
| "int_of_float NaN = Inl ValueError"

text \<open>A list comprehension \<^verbatim>\<open>[int(x) for x in xs]\<close>: left to right, the first failure raises.\<close>

fun ints_of_floats :: "npfloat list \<Rightarrow> error + int list" where
  "ints_of_floats [] = Inr []"
| "ints_of_floats (x # xs) =
     bind_err (int_of_float x) (\<lambda>n. bind_err (ints_of_floats xs) (\<lambda>ns. Inr (n # ns)))"

section \<open>\<^verbatim>\<open>compute_level_output_shape\<close>\<close>

text \<open>
  The result is the tuple \<^verbatim>\<open>(None, filters, ...)\<close>. With \<^verbatim>\<open>depth == 0\<close> the comprehension
  runs over \<^verbatim>\<open>image_shape\<close> itself, whose elements are integers already.
\<close>

definition compute_level_output_shape ::
    "int \<Rightarrow> int \<Rightarrow> int list \<Rightarrow> int list \<Rightarrow> error + int option list" where
  "compute_level_output_shape filters depth pool_size image_shape =
     (if depth \<noteq> 0 then
        bind_err (np_divide image_shape (np_multiply pool_size depth)) (\<lambda>output_image_shape.
        bind_err (ints_of_floats output_image_shape) (\<lambda>xs.
        Inr ([None, Some filters] @ map Some xs)))
      else Inr ([None, Some filters] @ map Some image_shape))"

section \<open>Layers and symbolic tensors\<close>

text \<open>
  A Keras layer object is its class with the constructor arguments the module passes.
  A symbolic tensor carries its static shape (batch axis first, channels last) and its
  history: the layer that produced it and that layer's inbound tensors.
\<close>

datatype padding = Same | Valid

datatype layer =
    InputLayer "int list"
  | Conv3D int "int list" "string option" padding
  | MaxPooling3D "int list"
  | UpSampling3D "int list"
  | Deconvolution3D int "int list" "int option list" "int list" "int option list"
  | Concatenate nat
  | Activation string

datatype tensor = Tensor (shape: "int option list") (layer: layer) (inbound: "tensor list")

text \<open>
  What the interpreter's environment decides: whether \<^verbatim>\<open>keras_contrib\<close> can be imported,
  and the output shape its \<^verbatim>\<open>Deconvolution3D\<close> layer infers. The add-on is no part of
  this module, so its shape inference stays a parameter.
\<close>

record env =
  keras_contrib_importable :: bool
  deconvolution3d_shape :: "layer \<Rightarrow> int option list \<Rightarrow> error + int option list"

section \<open>\<^verbatim>\<open>get_upconv\<close>\<close>

definition import_error_message :: string where
  "import_error_message =
     ''Install keras_contrib in order to use deconvolution. Otherwise set deconvolution=False.''"

text \<open>
  The constructor \<^verbatim>\<open>UpSampling3D(size=...)\<close> normalises its size with
  \<^verbatim>\<open>conv_utils.normalize_tuple\<close>: a tuple that has not three elements is a ValueError.
\<close>

definition normalize_tuple :: "int list \<Rightarrow> nat \<Rightarrow> error + int list" where
  "normalize_tuple v n = (if length v = n then Inr v else Inl ValueError)"

definition up_sampling3d :: "int list \<Rightarrow> error + layer" where
  "up_sampling3d sz = bind_err (normalize_tuple sz 3) (\<lambda>s. Inr (UpSampling3D s))"

text \<open>
  Keyword arguments are evaluated in the order written: \<^verbatim>\<open>output_shape\<close> (at \<^verbatim>\<open>depth\<close>)
  before \<^verbatim>\<open>input_shape\<close> (at \<^verbatim>\<open>depth + 1\<close>).
\<close>

definition get_upconv ::
    "env \<Rightarrow> int \<Rightarrow> int \<Rightarrow> int list \<Rightarrow> int list \<Rightarrow> int list \<Rightarrow> int list \<Rightarrow> bool \<Rightarrow> error + layer" where
  "get_upconv e depth nb_filters pool_size image_shape kernel_size strides deconvolution =
     (if deconvolution then
        (if \<not> keras_contrib_importable e then Inl (ImportError import_error_message)
         else
           bind_err (compute_level_output_shape nb_filters depth pool_size image_shape) (\<lambda>output_shape.
           bind_err (compute_level_output_shape nb_filters (depth + 1) pool_size image_shape) (\<lambda>input_shape.
           Inr (Deconvolution3D nb_filters kernel_size output_shape strides input_shape))))
      else up_sampling3d pool_size)"

section \<open>Shape inference of the framework's layers\<close>

text \<open>
  Keras and its backend are no part of this module. The definitions of this section follow
  the shape rules of the layers the module uses, in the default \<^verbatim>\<open>channels_last\<close> format
  (the module concatenates on axis 4): a rank-5 shape is \<^verbatim>\<open>(batch, d1, d2, d3, channels)\<close>.
  A rejected argument or shape is a ValueError.
\<close>

definition spatial :: "int option list \<Rightarrow> int option list" where
  "spatial s = take 3 (drop 1 s)"

text \<open>\<^verbatim>\<open>conv_utils.conv_output_length\<close> without dilation; an unknown length stays unknown.\<close>

definition conv_output_length :: "int option \<Rightarrow> int \<Rightarrow> padding \<Rightarrow> int \<Rightarrow> int option" where
  "conv_output_length input_length filter_size pad stride =
     map_option (\<lambda>l. ((case pad of Same \<Rightarrow> l | Valid \<Rightarrow> l - filter_size + 1) + stride - 1) div stride)
       input_length"

text \<open>With \<^verbatim>\<open>valid\<close> padding the backend rejects a window longer than the axis.\<close>

definition window_fits :: "padding \<Rightarrow> int option \<Rightarrow> int \<Rightarrow> bool" where
  "window_fits pad input_length filter_size =
     (case input_length of None \<Rightarrow> True | Some l \<Rightarrow> pad = Same \<or> filter_size \<le> l)"

text \<open>\<^verbatim>\<open>Input(shape)\<close>: a placeholder with a free batch axis; a dimension cannot be negative.\<close>

definition Input :: "int list \<Rightarrow> error + tensor" where
  "Input input_shape =
     (if list_ex (\<lambda>d. d < 0) input_shape then Inl ValueError
      else Inr (Tensor (None # map Some input_shape) (InputLayer input_shape) []))"

text \<open>
  \<^verbatim>\<open>Conv3D\<close> with unit strides: the channel axis becomes \<^verbatim>\<open>filters\<close>. The input must
  have a known, non-zero number of channels (the backend refuses a filter of depth 0);
  a layer with 0 filters is made, and fails the next convolution.
\<close>

definition conv3d_shape :: "int \<Rightarrow> int list \<Rightarrow> padding \<Rightarrow> int option list \<Rightarrow> error + int option list" where
  "conv3d_shape filters kernel_size pad s =
     (if length s \<noteq> 5 \<or> length kernel_size \<noteq> 3 \<or> list_ex (\<lambda>k. k \<le> 0) kernel_size
         \<or> filters < 0 \<or> s ! 4 = None \<or> s ! 4 = Some 0
         \<or> \<not> list_all2 (window_fits pad) (spatial s) kernel_size
      then Inl ValueError
      else Inr (s ! 0 # map2 (\<lambda>d k. conv_output_length d k pad 1) (spatial s) kernel_size
                  @ [Some filters]))"

text \<open>\<^verbatim>\<open>MaxPooling3D(pool_size=p)\<close>: strides default to the pool size, padding to \<^verbatim>\<open>valid\<close>.\<close>

definition max_pooling3d_shape :: "int list \<Rightarrow> int option list \<Rightarrow> error + int option list" where
  "max_pooling3d_shape pool_size s =
     (if length s \<noteq> 5 \<or> length pool_size \<noteq> 3 \<or> list_ex (\<lambda>p. p \<le> 0) pool_size
         \<or> \<not> list_all2 (window_fits Valid) (spatial s) pool_size
      then Inl ValueError
      else Inr (s ! 0 # map2 (\<lambda>d p. conv_output_length d p Valid p) (spatial s) pool_size
                  @ [s ! 4]))"

text \<open>\<^verbatim>\<open>UpSampling3D(size=k)\<close> repeats every spatial axis \<open>k\<close> times; it has no weights.\<close>

definition up_sampling3d_shape :: "int list \<Rightarrow> int option list \<Rightarrow> error + int option list" where
  "up_sampling3d_shape sz s =
     (if length s \<noteq> 5 \<or> length sz \<noteq> 3 \<or> list_ex (\<lambda>k. k \<le> 0) sz then Inl ValueError
      else Inr (s ! 0 # map2 (\<lambda>d k. map_option (\<lambda>l. k * l) d) (spatial s) sz @ [s ! 4]))"

text \<open>
  \<^verbatim>\<open>concatenate(tensors, axis)\<close>: with the concat axis deleted all shapes must be the same
  tuple; the output has the first shape with the lengths on the axis added up
  (unknown as soon as one is unknown).
\<close>

definition delete_axis :: "nat \<Rightarrow> 'a list \<Rightarrow> 'a list" where
  "delete_axis axis s = take axis s @ drop (Suc axis) s"

fun sum_axis :: "int option list \<Rightarrow> int option" where
  "sum_axis [] = Some 0"
| "sum_axis (None # ds) = None"
| "sum_axis (Some l # ds) = map_option (\<lambda>r. l + r) (sum_axis ds)"

definition concatenate_shape :: "nat \<Rightarrow> int option list list \<Rightarrow> error + int option list" where
  "concatenate_shape axis ss =
     (case ss of
        [] \<Rightarrow> Inl ValueError
      | s # rest \<Rightarrow>
          if list_ex (\<lambda>r. length r \<le> axis) ss then Inl IndexError
          else if list_ex (\<lambda>r. delete_axis axis r \<noteq> delete_axis axis s) rest then Inl ValueError
          else Inr (s[axis := sum_axis (map (\<lambda>r. r ! axis) ss)]))"

definition compute_output_shape :: "env \<Rightarrow> layer \<Rightarrow> int option list list \<Rightarrow> error + int option list" where
  "compute_output_shape e l ss =
     (case l of
        Concatenate axis \<Rightarrow> concatenate_shape axis ss
      | InputLayer _ \<Rightarrow> Inl ValueError
      | _ \<Rightarrow>
        (case ss of
           [s] \<Rightarrow>
             (case l of
                Conv3D filters kernel_size _ pad \<Rightarrow> conv3d_shape filters kernel_size pad s
              | MaxPooling3D pool_size \<Rightarrow> max_pooling3d_shape pool_size s
              | UpSampling3D sz \<Rightarrow> up_sampling3d_shape sz s
              | Deconvolution3D _ _ _ _ _ \<Rightarrow> deconvolution3d_shape e l s
              | Activation _ \<Rightarrow> Inr s
              | _ \<Rightarrow> Inl ValueError)
         | _ \<Rightarrow> Inl ValueError))"

text \<open>Calling a layer on tensors: the output tensor records the layer and its inbound tensors.\<close>

definition call :: "env \<Rightarrow> layer \<Rightarrow> tensor list \<Rightarrow> error + tensor" where
  "call e l ts = bind_err (compute_output_shape e l (map shape ts)) (\<lambda>s. Inr (Tensor s l ts))"

section \<open>The model builder \<^verbatim>\<open>unet_model_3d\<close>\<close>

datatype optimizer = Adam rat

record keras_model =
  inputs :: tensor
  outputs :: tensor
  optimizer :: "optimizer option"
  loss :: "string option"
  metrics :: "string list"

definition Model :: "tensor \<Rightarrow> tensor \<Rightarrow> keras_model" where
  "Model i out = \<lparr>inputs = i, outputs = out, optimizer = None, loss = None, metrics = []\<rparr>"

definition compile :: "keras_model \<Rightarrow> optimizer \<Rightarrow> string \<Rightarrow> string list \<Rightarrow> keras_model" where
  "compile m opt l ms = m\<lparr>optimizer := Some opt, loss := Some l, metrics := ms\<rparr>"

text \<open>
  One outer binding per assignment of the source, in its order. Inside a right-hand side
  the filter count \<^verbatim>\<open>int(base / downsize_filters_factor)\<close> is computed first, then the layer
  is made (by \<^verbatim>\<open>get_upconv\<close> for an upsampling) and called on its input.
  A rebound Python name (\<^verbatim>\<open>conv1 = ...(conv1)\<close>) is a bound variable that shadows the
  earlier one. \<^verbatim>\<open>input_shape[-3:]\<close> is the last three elements, or all of a shorter tuple.
  The two \<^verbatim>\<open>print\<close> calls only write to standard output and are left out.
\<close>

definition unet_model_3d ::
    "env \<Rightarrow> int list \<Rightarrow> int \<Rightarrow> int list \<Rightarrow> int \<Rightarrow> rat \<Rightarrow> bool \<Rightarrow> error + keras_model" where
  "unet_model_3d e input_shape downsize_filters_factor pool_size n_labels initial_learning_rate
       deconvolution =
     bind_err (Input input_shape) (\<lambda>inputs.
     bind_err (bind_err (int_truediv 32 downsize_filters_factor) (\<lambda>n.
                 call e (Conv3D n [3, 3, 3] (Some ''relu'') Same) [inputs])) (\<lambda>conv1.
     bind_err (bind_err (int_truediv 64 downsize_filters_factor) (\<lambda>n.
                 call e (Conv3D n [3, 3, 3] (Some ''relu'') Same) [conv1])) (\<lambda>conv1.
     bind_err (call e (MaxPooling3D pool_size) [conv1]) (\<lambda>pool1.
     bind_err (bind_err (int_truediv 64 downsize_filters_factor) (\<lambda>n.
                 call e (Conv3D n [3, 3, 3] (Some ''relu'') Same) [pool1])) (\<lambda>conv2.
     bind_err (bind_err (int_truediv 128 downsize_filters_factor) (\<lambda>n.
                 call e (Conv3D n [3, 3, 3] (Some ''relu'') Same) [conv2])) (\<lambda>conv2.
     bind_err (call e (MaxPooling3D pool_size) [conv2]) (\<lambda>pool2.
     bind_err (bind_err (int_truediv 128 downsize_filters_factor) (\<lambda>n.
                 call e (Conv3D n [3, 3, 3] (Some ''relu'') Same) [pool2])) (\<lambda>conv3.
     bind_err (bind_err (int_truediv 256 downsize_filters_factor) (\<lambda>n.
                 call e (Conv3D n [3, 3, 3] (Some ''relu'') Same) [conv3])) (\<lambda>conv3.
     bind_err (call e (MaxPooling3D pool_size) [conv3]) (\<lambda>pool3.
     bind_err (bind_err (int_truediv 256 downsize_filters_factor) (\<lambda>n.
                 call e (Conv3D n [3, 3, 3] (Some ''relu'') Same) [pool3])) (\<lambda>conv4.
     bind_err (bind_err (int_truediv 512 downsize_filters_factor) (\<lambda>n.
                 call e (Conv3D n [3, 3, 3] (Some ''relu'') Same) [conv4])) (\<lambda>conv4.
     bind_err (bind_err (int_truediv 512 downsize_filters_factor) (\<lambda>n.
               bind_err (get_upconv e 2 n pool_size (drop (length input_shape - 3) input_shape)
                           [2, 2, 2] [2, 2, 2] deconvolution) (\<lambda>up.
                 call e up [conv4]))) (\<lambda>up5.
     bind_err (call e (Concatenate 4) [up5, conv3]) (\<lambda>up5.
     bind_err (bind_err (int_truediv 256 downsize_filters_factor) (\<lambda>n.
                 call e (Conv3D n [3, 3, 3] (Some ''relu'') Same) [up5])) (\<lambda>conv5.
     bind_err (bind_err (int_truediv 256 downsize_filters_factor) (\<lambda>n.
                 call e (Conv3D n [3, 3, 3] (Some ''relu'') Same) [conv5])) (\<lambda>conv5.
     bind_err (bind_err (int_truediv 256 downsize_filters_factor) (\<lambda>n.
               bind_err (get_upconv e 1 n pool_size (drop (length input_shape - 3) input_shape)
                           [2, 2, 2] [2, 2, 2] deconvolution) (\<lambda>up.
                 call e up [conv5]))) (\<lambda>up6.
     bind_err (call e (Concatenate 4) [up6, conv2]) (\<lambda>up6.
     bind_err (bind_err (int_truediv 128 downsize_filters_factor) (\<lambda>n.
                 call e (Conv3D n [3, 3, 3] (Some ''relu'') Same) [up6])) (\<lambda>conv6.
     bind_err (bind_err (int_truediv 128 downsize_filters_factor) (\<lambda>n.
                 call e (Conv3D n [3, 3, 3] (Some ''relu'') Same) [conv6])) (\<lambda>conv6.
     bind_err (bind_err (int_truediv 128 downsize_filters_factor) (\<lambda>n.
               bind_err (get_upconv e 0 n pool_size (drop (length input_shape - 3) input_shape)
                           [2, 2, 2] [2, 2, 2] deconvolution) (\<lambda>up.
                 call e up [conv6]))) (\<lambda>up7.
     bind_err (call e (Concatenate 4) [up7, conv1]) (\<lambda>up7.
     bind_err (bind_err (int_truediv 64 downsize_filters_factor) (\<lambda>n.
                 call e (Conv3D n [3, 3, 3] (Some ''relu'') Same) [up7])) (\<lambda>conv7.
     bind_err (bind_err (int_truediv 64 downsize_filters_factor) (\<lambda>n.
                 call e (Conv3D n [3, 3, 3] (Some ''relu'') Same) [conv7])) (\<lambda>conv7.
     bind_err (call e (Conv3D n_labels [1, 1, 1] None Valid) [conv7]) (\<lambda>conv8.
     bind_err (call e (Activation ''sigmoid'') [conv8]) (\<lambda>act.
     Inr (compile (Model inputs act) (Adam initial_learning_rate)
            ''dice_coef_loss'' [''dice_coef''])))))))))))))))))))))))))))"

section \<open>The class \<^verbatim>\<open>Simple3DModel\<close>\<close>

text \<open>
  \<^verbatim>\<open>DATA_SHAPE\<close> is imported from the preprocessing package, which is not part of this
  module: it is a parameter of the constructor's model. The constructor calls the builder
  with \<^verbatim>\<open>input_shape=DATA_SHAPE\<close> and every other argument at its default.
\<close>

record Simple3DModel =
  model :: keras_model

definition Simple3DModel_init :: "env \<Rightarrow> int list \<Rightarrow> error + Simple3DModel" where
  "Simple3DModel_init e DATA_SHAPE =
     bind_err (unet_model_3d e DATA_SHAPE 1 [2, 2, 2] 1 (1 / 100) False) (\<lambda>m.
     Inr \<lparr>model = m\<rparr>)"

text \<open>The hooks \<^verbatim>\<open>_fit\<close> and \<^verbatim>\<open>_predict\<close>: the body is a single \<^verbatim>\<open>raise\<close>.\<close>

definition fit_message :: string where
  "fit_message = ''Must implement '' @ [CHR 0x27] @ ''_fit()'' @ [CHR 0x27]"

definition predict_message :: string where
  "predict_message = ''Must implement '' @ [CHR 0x27] @ ''_predict()'' @ [CHR 0x27]"

definition Simple3DModel_fit :: "Simple3DModel \<Rightarrow> 'x \<Rightarrow> 'y \<Rightarrow> error + 'r" where
  "Simple3DModel_fit self X y = Inl (NotImplementedError fit_message)"

definition Simple3DModel_predict :: "Simple3DModel \<Rightarrow> 'x \<Rightarrow> error + 'r" where
  "Simple3DModel_predict self X = Inl (NotImplementedError predict_message)"

section \<open>Reading a built model\<close>

text \<open>
  The trunk of a tensor is the chain of tensors from the input to it through the first
  inbound tensor of every layer. In the builder the first operand of every
  \<^verbatim>\<open>concatenate\<close> is the upsampled tensor, so the trunk of the output lists the layers in
  the order the source creates them.
\<close>

fun trunk :: "tensor \<Rightarrow> tensor list" where
  "trunk (Tensor s l []) = [Tensor s l []]"
| "trunk (Tensor s l (t # ts)) = trunk t @ [Tensor s l (t # ts)]"

fun conv3d_filters_of :: "layer \<Rightarrow> int list" where
  "conv3d_filters_of (Conv3D filters _ _ _) = [filters]"
| "conv3d_filters_of _ = []"

fun deconvolution3d_filters_of :: "layer \<Rightarrow> int list" where
  "deconvolution3d_filters_of (Deconvolution3D filters _ _ _ _) = [filters]"
| "deconvolution3d_filters_of _ = []"

fun is_concatenate :: "layer \<Rightarrow> bool" where
  "is_concatenate (Concatenate _) = True"
| "is_concatenate _ = False"

fun is_pooling :: "layer \<Rightarrow> bool" where
  "is_pooling (MaxPooling3D _) = True"
| "is_pooling _ = False"

text \<open>The filter counts of the model's \<^verbatim>\<open>Conv3D\<close> layers, in the order of the source.\<close>

definition conv3d_filters :: "keras_model \<Rightarrow> int list" where
  "conv3d_filters m = concat (map (conv3d_filters_of \<circ> layer) (trunk (outputs m)))"

definition deconvolution3d_filters :: "keras_model \<Rightarrow> int list" where
  "deconvolution3d_filters m = concat (map (deconvolution3d_filters_of \<circ> layer) (trunk (outputs m)))"

text \<open>
  Encoder level \<open>k\<close> (0 to 3) is the \<open>k\<close>-th pair of convolutions. The decoder pairs follow
  the eight encoder convolutions, deepest level first: \<^verbatim>\<open>conv5\<close> joins \<^verbatim>\<open>conv3\<close> (level 2),
  \<^verbatim>\<open>conv6\<close> joins \<^verbatim>\<open>conv2\<close> (level 1), \<^verbatim>\<open>conv7\<close> joins \<^verbatim>\<open>conv1\<close> (level 0).
\<close>

definition encoder_level :: "keras_model \<Rightarrow> nat \<Rightarrow> int list" where
  "encoder_level m k = take 2 (drop (2 * k) (conv3d_filters m))"

definition decoder_level :: "keras_model \<Rightarrow> nat \<Rightarrow> int list" where
  "decoder_level m k = take 2 (drop (8 + 2 * (2 - k)) (conv3d_filters m))"

text \<open>
  The tensors a \<^verbatim>\<open>concatenate\<close> produced (their inbound tensors are its operands), and the
  tensors that were pooled: the encoder levels' outputs before pooling, level 0 first.
\<close>

definition concat_sites :: "keras_model \<Rightarrow> tensor list" where
  "concat_sites m = filter (is_concatenate \<circ> layer) (trunk (outputs m))"

definition pooled :: "keras_model \<Rightarrow> tensor list" where
  "pooled m = concat (map inbound (filter (is_pooling \<circ> layer) (trunk (outputs m))))"

text \<open>The spatial shape \<open>k\<close> halvings below the image.\<close>

definition level_shape :: "int list \<Rightarrow> nat \<Rightarrow> int option list" where
  "level_shape image_shape k = map (\<lambda>d. Some (d div 2 ^ k)) image_shape"

text \<open>The layer \<^verbatim>\<open>Conv3D(int(base / f), (3, 3, 3), activation='relu', padding='same')\<close>.\<close>

definition relu_conv :: "int \<Rightarrow> int \<Rightarrow> layer" where
  "relu_conv f base = Conv3D (py_int (of_int base / of_int f)) [3, 3, 3] (Some ''relu'') Same"

text \<open>An interpreter without \<^verbatim>\<open>keras_contrib\<close>, for the concrete runs below.\<close>

definition plain_keras :: env where
  "plain_keras = \<lparr>keras_contrib_importable = False, deconvolution3d_shape = (\<lambda>l s. Inl ValueError)\<rparr>"

section \<open>Basic facts\<close>

lemma bind_err_Inr [simp]: "bind_err (Inr x) k = k x"
  by (simp add: bind_err_def)

lemma bind_err_Inl [simp]: "bind_err (Inl x) k = Inl x"
  by (simp add: bind_err_def)

lemma bind_err_Inr_iff: "bind_err m k = Inr y \<longleftrightarrow> (\<exists>x. m = Inr x \<and> k x = Inr y)"
  by (cases m) simp_all

lemma bind_err_Inl_iff: "bind_err m k = Inl x \<longleftrightarrow> m = Inl x \<or> (\<exists>y. m = Inr y \<and> k y = Inl x)"
  by (cases m) simp_all

lemma py_int_div_pos: "0 < f \<Longrightarrow> 0 \<le> b \<Longrightarrow> py_int (of_int b / of_int f) = b div f"
  by (simp add: py_int_def floor_divide_of_int_eq zero_le_divide_iff)

lemma int_truediv_pos: "0 < f \<Longrightarrow> 0 \<le> b \<Longrightarrow> int_truediv b f = Inr (b div f)"
  by (simp add: int_truediv_def py_truediv_def py_int_div_pos)

lemma int_truediv_Inr: "int_truediv b f = Inr n \<Longrightarrow> f \<noteq> 0 \<and> n = py_int (of_int b / of_int f)"
  by (auto simp: int_truediv_def py_truediv_def split: if_splits)

lemma int_truediv_error: "int_truediv b f = Inl x \<Longrightarrow> x = ZeroDivisionError"
  by (auto simp: int_truediv_def py_truediv_def split: if_splits)

lemma relu_conv_pos:
  "0 < f \<Longrightarrow> 0 \<le> b \<Longrightarrow> relu_conv f b = Conv3D (b div f) [3, 3, 3] (Some ''relu'') Same"
  by (simp add: relu_conv_def py_int_div_pos)

section \<open>Float rounding on the sizes of an image\<close>

lemma round_half_even_err: "\<bar>of_int (round_half_even x) - x\<bar> \<le> 1 / 2"
  unfolding round_half_even_def Let_def by (auto simp: abs_if) linarith+

lemma round_half_even_of_int [simp]: "round_half_even (of_int n) = n"
  by (simp add: round_half_even_def)


lemma round_half_even_zero [simp]: "round_half_even 0 = 0"
  by (simp add: round_half_even_def)

lemma float_exponent_le:
  assumes "q \<noteq> 0"
  shows "2 powi (float_exponent q + 52) \<le> \<bar>q\<bar>"
proof -
  obtain n d where nd: "quotient_of \<bar>q\<bar> = (n, d)"
    by (cases "quotient_of \<bar>q\<bar>")
  then have d: "0 < d" and q: "\<bar>q\<bar> = of_int n / of_int d"
    by (simp_all add: quotient_of_denom_pos quotient_of_div)
  from assms have "0 < \<bar>q\<bar>" by simp
  with q d have n: "0 < n"
    by (simp add: zero_less_divide_iff)
  let ?k = "bitlen n - bitlen d"
  show ?thesis
  proof (cases "2 powi ?k \<le> \<bar>q\<bar>")
    case True
    then show ?thesis by (simp add: float_exponent_def nd)
  next
    case False
    from bitlen_bounds [OF n] have "2 ^ nat (bitlen n - 1) \<le> n" by simp
    then have "(of_int (2 ^ nat (bitlen n - 1)) :: rat) \<le> of_int n"
      by (simp only: of_int_le_iff)
    moreover from n have "1 \<le> bitlen n"
      using bitlen_eq_zero_iff [of n] bitlen_nonneg [of n] by linarith
    ultimately have n': "(2::rat) powi (bitlen n - 1) \<le> of_int n"
      by (simp add: power_int_def)
    from bitlen_bounds [OF d] have "d < 2 ^ nat (bitlen d)" by simp
    then have "(of_int d :: rat) < of_int (2 ^ nat (bitlen d))"
      by (simp only: of_int_less_iff)
    then have d': "(of_int d :: rat) \<le> 2 powi (bitlen d)"
      using bitlen_nonneg [of d] by (simp add: power_int_def)
    have "(2::rat) powi ((bitlen n - 1) - bitlen d) = 2 powi (bitlen n - 1) / 2 powi (bitlen d)"
      by (rule power_int_diff) simp
    moreover have "?k - 1 = (bitlen n - 1) - bitlen d" by simp
    ultimately have "(2::rat) powi (?k - 1) = 2 powi (bitlen n - 1) / 2 powi (bitlen d)"
      by (simp only:)
    also have "\<dots> \<le> of_int n / of_int d"
      using n' d' d n by (intro frac_le) simp_all
    finally have "(2::rat) powi (?k - 1) \<le> \<bar>q\<bar>"
      by (simp add: q)
    with False show ?thesis by (simp add: float_exponent_def nd)
  qed
qed

lemma float64_zero [simp]: "float64 0 = 0"
  by (simp add: float64_def)

lemma float64_err:
  assumes "q \<noteq> 0"
  shows "\<bar>float64 q - q\<bar> \<le> \<bar>q\<bar> / 2 ^ 53"
proof -
  define e where "e = float_exponent q"
  have pos: "(0::rat) < 2 powi e" by (simp add: zero_less_power_int)
  have "float64 q - q = (of_int (round_half_even (q / 2 powi e)) - q / 2 powi e) * 2 powi e"
    using pos by (simp add: float64_def e_def Let_def algebra_simps)
  then have "\<bar>float64 q - q\<bar> = \<bar>of_int (round_half_even (q / 2 powi e)) - q / 2 powi e\<bar> * 2 powi e"
    using pos by (simp add: abs_mult)
  also have "\<dots> \<le> 1 / 2 * 2 powi e"
    using pos round_half_even_err [of "q / 2 powi e"] by (intro mult_right_mono) simp_all
  also have "\<dots> = 2 powi (e + 52) / 2 ^ 53"
    by (simp add: power_int_add)
  also have "\<dots> \<le> \<bar>q\<bar> / 2 ^ 53"
    using float_exponent_le [OF assms] by (simp add: e_def divide_right_mono)
  finally show ?thesis .
qed

lemma float64_of_int:
  assumes "\<bar>n\<bar> < 2 ^ 53"
  shows "float64 (of_int n) = of_int n"
proof (cases "n = 0")
  case True
  then show ?thesis by simp
next
  case False
  define e where "e = float_exponent (of_int n)"
  from False have "(2::rat) powi (e + 52) \<le> \<bar>of_int n\<bar>"
    unfolding e_def by (intro float_exponent_le) simp
  also from assms have "\<dots> < 2 powi 53"
    by (simp flip: of_int_abs)
  finally have "(2::rat) powi (e + 52) < 2 powi 53" .
  then have "e + 52 < 53"
    by (rule power_int_le_imp_less_exp [rotated]) simp_all
  then have e: "e \<le> 0" by simp
  then have p: "(2::rat) powi e = 1 / 2 ^ nat (- e)"
    by (cases "e = 0") (simp_all add: power_int_def inverse_eq_divide power_one_over)
  have "of_int n / (2::rat) powi e = of_int (n * 2 ^ nat (- e))"
    by (simp add: p)
  then have "round_half_even (of_int n / 2 powi e) = n * 2 ^ nat (- e)"
    by (simp only: round_half_even_of_int)
  then show ?thesis
    by (simp add: float64_def e_def [symmetric] p)
qed

lemma rat_div_mod:
  assumes "0 < b"
  shows "(of_int a :: rat) / of_int b = of_int (a div b) + of_int (a mod b) / of_int b"
proof -
  have "a = a div b * b + a mod b" by simp
  then have "(of_int a :: rat) = of_int (a div b * b + a mod b)" by (simp only:)
  then have "(of_int a :: rat) = of_int (a div b) * of_int b + of_int (a mod b)"
    by (simp only: of_int_add of_int_mult)
  then have "(of_int a :: rat) / of_int b
      = (of_int (a div b) * of_int b + of_int (a mod b)) / of_int b"
    by (simp only:)
  also have "\<dots> = of_int (a div b) + of_int (a mod b) / of_int b"
    using assms by (simp add: add_divide_distrib)
  finally show ?thesis .
qed

lemma py_int_float_divide:
  assumes "0 \<le> a" "a < 2 ^ 53" "0 < b" "b < 2 ^ 53"
  shows "py_int (float64 (float64 (of_int a) / float64 (of_int b))) = a div b"
proof -
  from assms have fa: "float64 (of_int a) = of_int a" and fb: "float64 (of_int b) = of_int b"
    by (simp_all add: float64_of_int)
  define q :: rat where "q = of_int a / of_int b"
  define k where "k = a div b"
  define r where "r = a mod b"
  from assms have r: "0 \<le> r" "r < b" by (simp_all add: r_def)
  from assms zdiv_mono2 [of a 1 b] have k: "0 \<le> k" "k \<le> a"
    by (simp_all add: k_def pos_imp_zdiv_nonneg_iff)
  have qk: "q = of_int k + of_int r / of_int b"
    unfolding q_def k_def r_def using assms(3) by (rule rat_div_mod)
  from assms have bpos: "(0::rat) < of_int b" by simp
  have goal: "py_int (float64 q) = k"
  proof (cases "r = 0")
    case True
    then have "q = of_int k" by (simp add: qk)
    moreover from k assms have "\<bar>k\<bar> < 2 ^ 53" by simp
    ultimately have "float64 q = of_int k" by (simp add: float64_of_int)
    with k show ?thesis by (simp add: py_int_def)
  next
    case False
    with r have r1: "1 \<le> r" "r + 1 \<le> b" by simp_all
    have "(of_int 1 :: rat) \<le> of_int r" using r1(1) by (simp only: of_int_le_iff)
    then have "(1::rat) / of_int b \<le> of_int r / of_int b"
      using bpos by (simp add: divide_right_mono)
    then have lo: "of_int k + 1 / of_int b \<le> q"
      by (simp add: qk)
    have "(of_int (r + 1) :: rat) \<le> of_int b" using r1(2) by (simp only: of_int_le_iff)
    then have "(of_int r + 1 :: rat) / of_int b \<le> of_int b / of_int b"
      using bpos by (intro divide_right_mono) simp_all
    then have "(of_int r :: rat) / of_int b + 1 / of_int b \<le> 1"
      using bpos by (simp add: add_divide_distrib)
    then have hi: "q + 1 / of_int b \<le> of_int k + 1"
      by (simp add: qk)
    have "0 < (1::rat) / of_int b" using bpos by simp
    with lo k have qpos: "0 < q"
      by (metis add_nonneg_pos less_le_trans of_int_0_le_iff)
    have "(of_int a :: rat) < of_int (2 ^ 53)" using assms(2) by (simp only: of_int_less_iff)
    then have "(of_int a :: rat) / 2 ^ 53 < 1" by simp
    then have "(of_int a :: rat) / 2 ^ 53 / of_int b < 1 / of_int b"
      using bpos by (rule divide_strict_right_mono)
    then have "q / 2 ^ 53 < 1 / of_int b"
      by (simp add: q_def)
    moreover from float64_err [of q] qpos have "\<bar>float64 q - q\<bar> \<le> q / 2 ^ 53"
      by simp
    ultimately have err: "\<bar>float64 q - q\<bar> < 1 / of_int b"
      by (rule le_less_trans [rotated])
    from err lo have low: "of_int k < float64 q" by linarith
    from err hi have high: "float64 q < of_int k + 1" by linarith
    from low have "of_int k \<le> float64 q" by simp
    then have "\<lfloor>float64 q\<rfloor> = k" using high by (rule floor_unique)
    moreover from low k have "0 \<le> float64 q"
      by (metis less_imp_le of_int_0_le_iff order_trans)
    ultimately show ?thesis by (simp add: py_int_def)
  qed
  then show ?thesis by (simp add: fa fb q_def k_def)
qed

lemma wrap_int64_id: "- (2 ^ 63) \<le> x \<Longrightarrow> x < 2 ^ 63 \<Longrightarrow> wrap_int64 x = x"
  by (simp add: wrap_int64_def)

section \<open>Properties of \<^verbatim>\<open>compute_level_output_shape\<close>\<close>

lemma float_divide_sizes:
  assumes "0 \<le> a" "a < 2 ^ 53" "0 < b" "b < 2 ^ 53"
  shows "int_of_float (float_divide a (wrap_int64 b)) = Inr (a div b)"
proof -
  from assms have "wrap_int64 b = b"
    by (intro wrap_int64_id) simp_all
  moreover from assms have "b \<noteq> 0" by simp
  ultimately show ?thesis
    using py_int_float_divide [OF assms] by (simp add: float_divide_def)
qed

lemma ints_of_divided:
  assumes "length xs = length ps" "0 < d"
    and "list_all (\<lambda>p. 0 < p \<and> p * d < 2 ^ 53) ps" "list_all (\<lambda>a. 0 \<le> a \<and> a < 2 ^ 53) xs"
  shows "ints_of_floats (map2 float_divide xs (np_multiply ps d))
       = Inr (map2 (\<lambda>a p. a div (p * d)) xs ps)"
  using assms(1,3,4)
proof (induction xs ps rule: list_induct2)
  case Nil
  then show ?case by (simp add: np_multiply_def)
next
  case (Cons x xs p ps)
  then have "ints_of_floats (map2 float_divide xs (np_multiply ps d))
       = Inr (map2 (\<lambda>a p. a div (p * d)) xs ps)"
    by simp
  moreover have "int_of_float (float_divide x (wrap_int64 (p * d))) = Inr (x div (p * d))"
    using Cons.prems assms(2) by (intro float_divide_sizes) simp_all
  ultimately show ?case
    by (simp add: np_multiply_def)
qed

lemma compute_level_output_shape_divides:
  assumes "0 < d" "length pool_size = length image_shape"
    and "list_all (\<lambda>p. 0 < p \<and> p * d < 2 ^ 53) pool_size"
    and "list_all (\<lambda>a. 0 \<le> a \<and> a < 2 ^ 53) image_shape"
  shows "compute_level_output_shape filters d pool_size image_shape =
    Inr (None # Some filters # map Some (map2 (\<lambda>a p. a div (p * d)) image_shape pool_size))"
proof -
  have "length image_shape = length (np_multiply pool_size d)"
    using assms(2) by (simp add: np_multiply_def)
  then have "np_divide image_shape (np_multiply pool_size d)
      = Inr (map2 float_divide image_shape (np_multiply pool_size d))"
    by (simp add: np_divide_def)
  moreover have "ints_of_floats (map2 float_divide image_shape (np_multiply pool_size d))
      = Inr (map2 (\<lambda>a p. a div (p * d)) image_shape pool_size)"
    using assms by (intro ints_of_divided) simp_all
  ultimately show ?thesis
    using assms(1) by (simp add: compute_level_output_shape_def)
qed

text \<open>
  Claim C4, as the code has it. With \<open>depth = 0\<close> the result is \<open>(None, filters)\<close> followed by
  the image shape unchanged. With a depth \<open>d > 0\<close>, a pool size as long as the image shape
  with positive components, and sizes below \<open>2 ^ 53\<close> (image sides from 0, products
  \<open>pool_size * d\<close>), it is \<open>(None, filters)\<close> followed by each image side divided by
  \<open>pool_size * d\<close> and truncated to an integer, the integer quotient \<open>a div (p * d)\<close>.
\<close>

theorem compute_level_output_shape_spec:
  "compute_level_output_shape filters 0 pool_size image_shape
     = Inr (None # Some filters # map Some image_shape)
   \<and> (0 < d \<longrightarrow> length pool_size = length image_shape \<longrightarrow>
        list_all (\<lambda>p. 0 < p \<and> p * d < 2 ^ 53) pool_size \<longrightarrow>
        list_all (\<lambda>a. 0 \<le> a \<and> a < 2 ^ 53) image_shape \<longrightarrow>
        compute_level_output_shape filters d pool_size image_shape
          = Inr (None # Some filters # map Some (map2 (\<lambda>a p. a div (p * d)) image_shape pool_size)))"
proof (intro conjI impI)
  show "compute_level_output_shape filters 0 pool_size image_shape
     = Inr (None # Some filters # map Some image_shape)"
    by (simp add: compute_level_output_shape_def)
next
  assume "0 < d" "length pool_size = length image_shape"
    "list_all (\<lambda>p. 0 < p \<and> p * d < 2 ^ 53) pool_size"
    "list_all (\<lambda>a. 0 \<le> a \<and> a < 2 ^ 53) image_shape"
  then show "compute_level_output_shape filters d pool_size image_shape
          = Inr (None # Some filters # map Some (map2 (\<lambda>a p. a div (p * d)) image_shape pool_size))"
    by (rule compute_level_output_shape_divides)
qed

theorem compute_level_output_shape_spec_witness:
  "compute_level_output_shape 512 0 [2, 2, 2] [48, 48, 50] = Inr [None, Some 512, Some 48, Some 48, Some 50]
   \<and> (0::int) < 3 \<and> length [2, 2, 2 :: int] = length [48, 48, 50 :: int]
   \<and> list_all (\<lambda>p. 0 < p \<and> p * 3 < 2 ^ 53) [2, 2, 2 :: int]
   \<and> list_all (\<lambda>a. 0 \<le> a \<and> a < 2 ^ 53) [48, 48, 50 :: int]
   \<and> compute_level_output_shape 512 3 [2, 2, 2] [48, 48, 50] = Inr [None, Some 512, Some 8, Some 8, Some 8]"
  using compute_level_output_shape_spec [of 512 "[2, 2, 2]" "[48, 48, 50]" 3]
  by simp

text \<open>
  The claim as stated, for every pool size, fails where \<open>pool_size * depth\<close> has a zero
  component: the quotient is an infinity and \<^verbatim>\<open>int\<close> raises.
\<close>

theorem compute_level_output_shape_zero_pool_counterexample:
  "compute_level_output_shape 512 1 [0, 2, 2] [8, 8, 8] = Inl OverflowError"
  by (simp add: compute_level_output_shape_def np_multiply_def np_divide_def wrap_int64_def
      float_divide_def)

section \<open>Properties of \<^verbatim>\<open>get_upconv\<close>\<close>

lemma get_upconv_False:
  "length p = 3 \<Longrightarrow> get_upconv e d n p i k s False = Inr (UpSampling3D p)"
  by (simp add: get_upconv_def up_sampling3d_def normalize_tuple_def)

lemma get_upconv_False_error: "get_upconv e d n p i k s False = Inl x \<Longrightarrow> x = ValueError"
  by (auto simp: get_upconv_def up_sampling3d_def normalize_tuple_def split: if_splits)

lemma get_upconv_no_contrib:
  "\<not> keras_contrib_importable e \<Longrightarrow>
   get_upconv e d n p i k s True = Inl (ImportError import_error_message)"
  by (simp add: get_upconv_def)

lemma get_upconv_Inr:
  "get_upconv e d n p i k s deconvolution = Inr up \<Longrightarrow>
   conv3d_filters_of up = [] \<and> \<not> is_concatenate up \<and> \<not> is_pooling up
   \<and> deconvolution3d_filters_of up = (if deconvolution then [n] else [])"
  by (auto simp: get_upconv_def up_sampling3d_def normalize_tuple_def bind_err_Inr_iff
      split: if_splits)

text \<open>
  Claim C8. With \<^verbatim>\<open>deconvolution=False\<close> and a pool size of three elements the result is the
  layer \<^verbatim>\<open>UpSampling3D(size=pool_size)\<close>, whose only configuration is its size: no filters,
  no kernel, no weights. No other argument and nothing of the environment enters the
  result (also where the constructor refuses the size).
\<close>

theorem get_upconv_upsampling:
  "(length pool_size = 3 \<longrightarrow>
      get_upconv e depth nb_filters pool_size image_shape kernel_size strides False
        = Inr (UpSampling3D pool_size))
   \<and> get_upconv e depth nb_filters pool_size image_shape kernel_size strides False
     = get_upconv e' depth' nb_filters' pool_size image_shape' kernel_size' strides' False"
  by (simp add: get_upconv_def up_sampling3d_def normalize_tuple_def)

theorem get_upconv_upsampling_witness:
  "length [2, 2, 2 :: int] = 3
   \<and> get_upconv plain_keras 2 512 [2, 2, 2] [48, 48, 48] [2, 2, 2] [2, 2, 2] False
     = Inr (UpSampling3D [2, 2, 2])
   \<and> get_upconv plain_keras 2 512 [2, 2, 2] [48, 48, 48] [2, 2, 2] [2, 2, 2] False
     = get_upconv plain_keras 0 7 [2, 2, 2] [] [3] [1, 1, 1] False"
  using get_upconv_upsampling [of "[2, 2, 2]" plain_keras 2 512 "[48, 48, 48]" "[2, 2, 2]" "[2, 2, 2]"
      plain_keras 0 7 "[]" "[3]" "[1, 1, 1]"]
  by (simp add: get_upconv_def up_sampling3d_def normalize_tuple_def)

section \<open>The hooks\<close>

text \<open>
  Claim C6. Whatever the object and the arguments, \<^verbatim>\<open>_fit\<close> and \<^verbatim>\<open>_predict\<close> raise
  NotImplementedError; neither returns a value.
\<close>

theorem hooks_not_implemented:
  "Simple3DModel_fit self X y = Inl (NotImplementedError fit_message)
   \<and> Simple3DModel_predict self X' = Inl (NotImplementedError predict_message)
   \<and> Simple3DModel_fit self X y \<noteq> Inr r \<and> Simple3DModel_predict self X' \<noteq> Inr r'"
  by (simp add: Simple3DModel_fit_def Simple3DModel_predict_def)

section \<open>Layer calls on known shapes\<close>

lemma Input_4:
  "0 \<le> x \<Longrightarrow> 0 \<le> y \<Longrightarrow> 0 \<le> z \<Longrightarrow> 0 \<le> c \<Longrightarrow>
   Input [x, y, z, c]
     = Inr (Tensor [None, Some x, Some y, Some z, Some c] (InputLayer [x, y, z, c]) [])"
  by (simp add: Input_def)

lemma call_conv3d_same:
  "0 \<le> n \<Longrightarrow> 0 < c \<Longrightarrow>
   call e (Conv3D n [3, 3, 3] a Same) [Tensor [b, Some d1, Some d2, Some d3, Some c] l ts]
     = Inr (Tensor [b, Some d1, Some d2, Some d3, Some n] (Conv3D n [3, 3, 3] a Same)
         [Tensor [b, Some d1, Some d2, Some d3, Some c] l ts])"
  by (simp add: call_def compute_output_shape_def conv3d_shape_def spatial_def window_fits_def
      conv_output_length_def)

lemma call_conv3d_unit:
  "0 \<le> n \<Longrightarrow> 0 < c \<Longrightarrow> 0 < d1 \<Longrightarrow> 0 < d2 \<Longrightarrow> 0 < d3 \<Longrightarrow>
   call e (Conv3D n [1, 1, 1] a Valid) [Tensor [b, Some d1, Some d2, Some d3, Some c] l ts]
     = Inr (Tensor [b, Some d1, Some d2, Some d3, Some n] (Conv3D n [1, 1, 1] a Valid)
         [Tensor [b, Some d1, Some d2, Some d3, Some c] l ts])"
  by (simp add: call_def compute_output_shape_def conv3d_shape_def spatial_def window_fits_def
      conv_output_length_def)

lemma call_max_pooling3d_2:
  "2 \<le> d1 \<Longrightarrow> 2 \<le> d2 \<Longrightarrow> 2 \<le> d3 \<Longrightarrow>
   call e (MaxPooling3D [2, 2, 2]) [Tensor [b, Some d1, Some d2, Some d3, c] l ts]
     = Inr (Tensor [b, Some (d1 div 2), Some (d2 div 2), Some (d3 div 2), c]
         (MaxPooling3D [2, 2, 2]) [Tensor [b, Some d1, Some d2, Some d3, c] l ts])"
  by (simp add: call_def compute_output_shape_def max_pooling3d_shape_def spatial_def
      window_fits_def conv_output_length_def)

lemma call_up_sampling3d_2:
  "call e (UpSampling3D [2, 2, 2]) [Tensor [b, Some d1, Some d2, Some d3, c] l ts]
     = Inr (Tensor [b, Some (2 * d1), Some (2 * d2), Some (2 * d3), c] (UpSampling3D [2, 2, 2])
         [Tensor [b, Some d1, Some d2, Some d3, c] l ts])"
  by (simp add: call_def compute_output_shape_def up_sampling3d_shape_def spatial_def)

lemma call_concatenate_4:
  "call e (Concatenate 4)
      [Tensor [b, d1, d2, d3, Some c] l ts, Tensor [b, d1, d2, d3, Some c'] l' ts']
     = Inr (Tensor [b, d1, d2, d3, Some (c + c')] (Concatenate 4)
         [Tensor [b, d1, d2, d3, Some c] l ts, Tensor [b, d1, d2, d3, Some c'] l' ts'])"
  by (simp add: call_def compute_output_shape_def concatenate_shape_def delete_axis_def)

lemma call_activation:
  "call e (Activation a) [t] = Inr (Tensor (shape t) (Activation a) [t])"
  by (simp add: call_def compute_output_shape_def)

lemmas layer_calls =
  Input_4 int_truediv_pos get_upconv_False call_conv3d_same call_conv3d_unit
  call_max_pooling3d_2 call_up_sampling3d_2 call_concatenate_4 call_activation
  pos_imp_zdiv_nonneg_iff compile_def Model_def

section \<open>The structure of every model the builder returns\<close>

lemma call_Inr: "call e l ts = Inr t \<Longrightarrow> \<exists>s. t = Tensor s l ts"
  by (auto simp: call_def bind_err_Inr_iff)

lemma call_trunk:
  "call e l (u # ts) = Inr t \<Longrightarrow> trunk t = trunk u @ [t] \<and> layer t = l \<and> inbound t = u # ts"
  by (auto dest: call_Inr)

lemma Input_trunk:
  "Input s = Inr t \<Longrightarrow> trunk t = [t] \<and> layer t = InputLayer s \<and> inbound t = []"
  by (auto simp: Input_def split: if_splits)

lemma unet_layers:
  assumes "unet_model_3d e input_shape f pool_size n_labels lr deconvolution = Inr m"
  shows "\<exists>up5 up6 up7.
    map layer (trunk (outputs m)) =
      InputLayer input_shape # map (relu_conv f) [32, 64] @ [MaxPooling3D pool_size]
        @ map (relu_conv f) [64, 128] @ [MaxPooling3D pool_size]
        @ map (relu_conv f) [128, 256] @ [MaxPooling3D pool_size]
        @ map (relu_conv f) [256, 512]
        @ [up5, Concatenate 4] @ map (relu_conv f) [256, 256]
        @ [up6, Concatenate 4] @ map (relu_conv f) [128, 128]
        @ [up7, Concatenate 4] @ map (relu_conv f) [64, 64]
        @ [Conv3D n_labels [1, 1, 1] None Valid, Activation ''sigmoid'']
    \<and> get_upconv e 2 (py_int (512 / of_int f)) pool_size
          (drop (length input_shape - 3) input_shape) [2, 2, 2] [2, 2, 2] deconvolution = Inr up5
    \<and> get_upconv e 1 (py_int (256 / of_int f)) pool_size
          (drop (length input_shape - 3) input_shape) [2, 2, 2] [2, 2, 2] deconvolution = Inr up6
    \<and> get_upconv e 0 (py_int (128 / of_int f)) pool_size
          (drop (length input_shape - 3) input_shape) [2, 2, 2] [2, 2, 2] deconvolution = Inr up7
    \<and> f \<noteq> 0"
  using assms unfolding unet_model_3d_def
  by (clarsimp simp: bind_err_Inr_iff compile_def Model_def relu_conv_def
      dest!: call_trunk Input_trunk int_truediv_Inr)

lemma unet_conv3d_filters:
  assumes "unet_model_3d e input_shape f pool_size n_labels lr deconvolution = Inr m"
  shows "conv3d_filters m =
      map (\<lambda>base. py_int (of_int base / of_int f))
        [32, 64, 64, 128, 128, 256, 256, 512, 256, 256, 128, 128, 64, 64] @ [n_labels]"
    and "deconvolution3d_filters m =
      (if deconvolution then map (\<lambda>base. py_int (of_int base / of_int f)) [512, 256, 128] else [])"
    and "f \<noteq> 0"
proof -
  from unet_layers [OF assms] obtain up5 up6 up7 where
    layers: "map layer (trunk (outputs m)) =
      InputLayer input_shape # map (relu_conv f) [32, 64] @ [MaxPooling3D pool_size]
        @ map (relu_conv f) [64, 128] @ [MaxPooling3D pool_size]
        @ map (relu_conv f) [128, 256] @ [MaxPooling3D pool_size]
        @ map (relu_conv f) [256, 512]
        @ [up5, Concatenate 4] @ map (relu_conv f) [256, 256]
        @ [up6, Concatenate 4] @ map (relu_conv f) [128, 128]
        @ [up7, Concatenate 4] @ map (relu_conv f) [64, 64]
        @ [Conv3D n_labels [1, 1, 1] None Valid, Activation ''sigmoid'']"
    and ups: "get_upconv e 2 (py_int (512 / of_int f)) pool_size
          (drop (length input_shape - 3) input_shape) [2, 2, 2] [2, 2, 2] deconvolution = Inr up5"
       "get_upconv e 1 (py_int (256 / of_int f)) pool_size
          (drop (length input_shape - 3) input_shape) [2, 2, 2] [2, 2, 2] deconvolution = Inr up6"
       "get_upconv e 0 (py_int (128 / of_int f)) pool_size
          (drop (length input_shape - 3) input_shape) [2, 2, 2] [2, 2, 2] deconvolution = Inr up7"
    and f: "f \<noteq> 0"
    apply (elim exE conjE)
    subgoal for up5 up6 up7 by (rule that [of up5 up6 up7])
    done
  have c: "conv3d_filters m = concat (map conv3d_filters_of (map layer (trunk (outputs m))))"
    and d: "deconvolution3d_filters m
        = concat (map deconvolution3d_filters_of (map layer (trunk (outputs m))))"
    by (simp_all add: conv3d_filters_def deconvolution3d_filters_def)
  show "conv3d_filters m =
      map (\<lambda>base. py_int (of_int base / of_int f))
        [32, 64, 64, 128, 128, 256, 256, 512, 256, 256, 128, 128, 64, 64] @ [n_labels]"
    unfolding c layers using ups [THEN get_upconv_Inr] by (simp add: relu_conv_def)
  show "deconvolution3d_filters m =
      (if deconvolution then map (\<lambda>base. py_int (of_int base / of_int f)) [512, 256, 128] else [])"
    unfolding d layers using ups [THEN get_upconv_Inr] by (simp add: relu_conv_def)
  show "f \<noteq> 0" by (rule f)
qed

section \<open>The build on an image whose sides are multiples of 8\<close>

lemma filter_counts_pos:
  fixes f :: int
  assumes "0 < f" "f \<le> 32"
  shows "0 < 32 div f" "0 < 64 div f" "0 < 128 div f" "0 < 256 div f" "0 < 512 div f"
  using assms by (simp_all add: pos_imp_zdiv_pos_iff)

lemma unet_default_build:
  assumes "0 < a" "0 < b" "0 < c" "0 < ch" "0 < f" "f \<le> 32" "0 \<le> n"
  shows "\<exists>m. unet_model_3d e [8 * a, 8 * b, 8 * c, ch] f [2, 2, 2] n lr False = Inr m
     \<and> shape (inputs m) = [None, Some (8 * a), Some (8 * b), Some (8 * c), Some ch]
     \<and> shape (outputs m) = [None, Some (8 * a), Some (8 * b), Some (8 * c), Some n]
     \<and> layer (outputs m) = Activation ''sigmoid''
     \<and> map layer (inbound (outputs m)) = [Conv3D n [1, 1, 1] None Valid]
     \<and> map layer (concat_sites m) = [Concatenate 4, Concatenate 4, Concatenate 4]
     \<and> map (map layer \<circ> inbound) (concat_sites m) =
          [[UpSampling3D [2, 2, 2], relu_conv f 256], [UpSampling3D [2, 2, 2], relu_conv f 128],
           [UpSampling3D [2, 2, 2], relu_conv f 64]]
     \<and> map (\<lambda>t. inbound t ! 1) (concat_sites m) = rev (pooled m)
     \<and> map (map (spatial \<circ> shape) \<circ> inbound) (concat_sites m) =
          [[[Some (2 * a), Some (2 * b), Some (2 * c)], [Some (2 * a), Some (2 * b), Some (2 * c)]],
           [[Some (4 * a), Some (4 * b), Some (4 * c)], [Some (4 * a), Some (4 * b), Some (4 * c)]],
           [[Some (8 * a), Some (8 * b), Some (8 * c)], [Some (8 * a), Some (8 * b), Some (8 * c)]]]"
  using assms filter_counts_pos [OF assms(5,6)] unfolding unet_model_3d_def
  by (simp add: layer_calls concat_sites_def pooled_def spatial_def relu_conv_pos)

lemma unet_no_contrib_build:
  assumes "0 < a" "0 < b" "0 < c" "0 < ch" "0 < f" "f \<le> 32" "\<not> keras_contrib_importable e"
  shows "unet_model_3d e [8 * a, 8 * b, 8 * c, ch] f [2, 2, 2] n lr True
     = Inl (ImportError import_error_message)"
  using assms filter_counts_pos [OF assms(5,6)] unfolding unet_model_3d_def
  by (simp add: layer_calls get_upconv_no_contrib)


section \<open>No ImportError without the deconvolution flag\<close>

lemma Input_error: "Input s = Inl x \<Longrightarrow> x = ValueError"
  by (auto simp: Input_def split: if_splits)

lemma call_error:
  "call e l ts = Inl x \<Longrightarrow> deconvolution3d_filters_of l = [] \<Longrightarrow> x = ValueError \<or> x = IndexError"
  by (cases l)
     (auto simp: call_def bind_err_Inl_iff compute_output_shape_def conv3d_shape_def
        max_pooling3d_shape_def up_sampling3d_shape_def concatenate_shape_def
        split: list.splits if_splits)

lemma unet_no_import_error:
  "unet_model_3d e input_shape f pool_size n_labels lr False \<noteq> Inl (ImportError msg)"
  unfolding unet_model_3d_def
  by (auto simp: bind_err_Inl_iff
      dest!: Input_error int_truediv_error call_error get_upconv_False_error
      dest: get_upconv_Inr)


lemma multiple_of_8:
  assumes "0 < x" "8 dvd x"
  obtains a :: int where "x = 8 * a" "0 < a"
proof -
  from assms(2) obtain a where "x = 8 * a" by (auto simp: dvd_def)
  with assms(1) that show thesis by simp
qed

section \<open>The claims about the builder\<close>

text \<open>
  Claim C1. For an input shape \<open>(x, y, z, c)\<close> with positive sides divisible by 8 (and a
  positive channel count and label count, a filter factor from 1 to 32, which keeps every
  filter count positive, the default pool size and no deconvolution) the builder returns
  a model. Its output tensor has the spatial sides of
  the input and \<open>n_labels\<close> channels; it is the sigmoid activation of the 1x1x1 convolution
  with \<open>n_labels\<close> filters.
\<close>

theorem unet_model_3d_output_shape:
  assumes "0 < x" "0 < y" "0 < z" "8 dvd x" "8 dvd y" "8 dvd z" "0 < c" "0 < f" "f \<le> 32"
    and "0 < n_labels"
  shows "\<exists>m. unet_model_3d e [x, y, z, c] f [2, 2, 2] n_labels lr False = Inr m
     \<and> shape (inputs m) = [None, Some x, Some y, Some z, Some c]
     \<and> shape (outputs m) = [None, Some x, Some y, Some z, Some n_labels]
     \<and> spatial (shape (outputs m)) = spatial (shape (inputs m))
     \<and> layer (outputs m) = Activation ''sigmoid''
     \<and> map layer (inbound (outputs m)) = [Conv3D n_labels [1, 1, 1] None Valid]"
proof -
  from assms obtain a b k where x: "x = 8 * a" "0 < a" and y: "y = 8 * b" "0 < b"
    and z: "z = 8 * k" "0 < k"
    by (meson multiple_of_8)
  from assms have n: "0 \<le> n_labels" by simp
  from unet_default_build [OF x(2) y(2) z(2) \<open>0 < c\<close> \<open>0 < f\<close> \<open>f \<le> 32\<close> n, of e lr]
  show ?thesis
    unfolding x(1) y(1) z(1) by (auto simp: spatial_def)
qed

theorem unet_model_3d_output_shape_witness:
  "(0::int) < 8 \<and> (0::int) < 16 \<and> (0::int) < 24 \<and> (8::int) dvd 8 \<and> (8::int) dvd 16 \<and> (8::int) dvd 24
   \<and> (0::int) < 3 \<and> (0::int) < 1 \<and> (1::int) \<le> 32 \<and> (0::int) < 2
   \<and> (\<exists>m. unet_model_3d plain_keras [8, 16, 24, 3] 1 [2, 2, 2] 2 (1 / 100) False = Inr m
        \<and> shape (outputs m) = [None, Some 8, Some 16, Some 24, Some 2]
        \<and> layer (outputs m) = Activation ''sigmoid'')"
  using unet_model_3d_output_shape [of 8 16 24 3 1 2 plain_keras "1 / 100"]
  by auto

text \<open>
  Claim C7. On such an input (and factor) the three concatenations are on axis 4; the operands of each are
  an upsampled tensor and the output of an encoder level before its pooling, deepest level
  first (the second operands are the pooled tensors in reverse); and at level \<open>k\<close> both
  operands have the spatial shape of the image halved \<open>k\<close> times.
\<close>

theorem skip_connection_shapes:
  assumes "0 < x" "0 < y" "0 < z" "8 dvd x" "8 dvd y" "8 dvd z" "0 < c" "0 < f" "f \<le> 32"
    and "0 < n_labels"
  shows "\<exists>m. unet_model_3d e [x, y, z, c] f [2, 2, 2] n_labels lr False = Inr m
     \<and> map layer (concat_sites m) = [Concatenate 4, Concatenate 4, Concatenate 4]
     \<and> map (map layer \<circ> inbound) (concat_sites m) =
          [[UpSampling3D [2, 2, 2], relu_conv f 256], [UpSampling3D [2, 2, 2], relu_conv f 128],
           [UpSampling3D [2, 2, 2], relu_conv f 64]]
     \<and> map (\<lambda>t. inbound t ! 1) (concat_sites m) = rev (pooled m)
     \<and> map (map (spatial \<circ> shape) \<circ> inbound) (concat_sites m) =
          [[level_shape [x, y, z] 2, level_shape [x, y, z] 2],
           [level_shape [x, y, z] 1, level_shape [x, y, z] 1],
           [level_shape [x, y, z] 0, level_shape [x, y, z] 0]]"
proof -
  from assms obtain a b k where x: "x = 8 * a" "0 < a" and y: "y = 8 * b" "0 < b"
    and z: "z = 8 * k" "0 < k"
    by (meson multiple_of_8)
  from assms have n: "0 \<le> n_labels" by simp
  from unet_default_build [OF x(2) y(2) z(2) \<open>0 < c\<close> \<open>0 < f\<close> \<open>f \<le> 32\<close> n, of e lr]
  show ?thesis
    unfolding x(1) y(1) z(1) by (auto simp: level_shape_def)
qed

theorem skip_connection_shapes_witness:
  "(0::int) < 8 \<and> (0::int) < 16 \<and> (0::int) < 24 \<and> (8::int) dvd 8 \<and> (8::int) dvd 16 \<and> (8::int) dvd 24
   \<and> (0::int) < 3 \<and> (0::int) < 1 \<and> (1::int) \<le> 32 \<and> (0::int) < 2
   \<and> (\<exists>m. unet_model_3d plain_keras [8, 16, 24, 3] 1 [2, 2, 2] 2 (1 / 100) False = Inr m
        \<and> map (\<lambda>t. inbound t ! 1) (concat_sites m) = rev (pooled m)
        \<and> map (map (spatial \<circ> shape) \<circ> inbound) (concat_sites m) =
          [[[Some 2, Some 4, Some 6], [Some 2, Some 4, Some 6]],
           [[Some 4, Some 8, Some 12], [Some 4, Some 8, Some 12]],
           [[Some 8, Some 16, Some 24], [Some 8, Some 16, Some 24]]])"
  using skip_connection_shapes [of 8 16 24 3 1 2 plain_keras "1 / 100"]
  by (auto simp: level_shape_def)



text \<open>
  Claim C3, as the code has it. Whenever the builder returns a model, the two convolutions of
  a decoder level both have the second (the larger) filter count of the encoder level they
  are joined with: \<open>int(256 / f)\<close> twice at level 2, \<open>int(128 / f)\<close> twice at level 1 and
  \<open>int(64 / f)\<close> twice at level 0.
\<close>

theorem decoder_level_filter_counts:
  assumes "unet_model_3d e input_shape f pool_size n_labels lr deconvolution = Inr m"
  shows "encoder_level m 2 = [py_int (128 / of_int f), py_int (256 / of_int f)]
     \<and> decoder_level m 2 = [py_int (256 / of_int f), py_int (256 / of_int f)]
     \<and> encoder_level m 1 = [py_int (64 / of_int f), py_int (128 / of_int f)]
     \<and> decoder_level m 1 = [py_int (128 / of_int f), py_int (128 / of_int f)]
     \<and> encoder_level m 0 = [py_int (32 / of_int f), py_int (64 / of_int f)]
     \<and> decoder_level m 0 = [py_int (64 / of_int f), py_int (64 / of_int f)]
     \<and> decoder_level m 2 = replicate 2 (last (encoder_level m 2))
     \<and> decoder_level m 1 = replicate 2 (last (encoder_level m 1))
     \<and> decoder_level m 0 = replicate 2 (last (encoder_level m 0))"
  using unet_conv3d_filters(1) [OF assms]
  by (simp add: encoder_level_def decoder_level_def numeral_2_eq_2)

theorem decoder_level_filter_counts_witness:
  "unet_model_3d plain_keras [8, 8, 8, 1] 1 [2, 2, 2] 1 (1 / 100) False
       = Inr (projr (unet_model_3d plain_keras [8, 8, 8, 1] 1 [2, 2, 2] 1 (1 / 100) False))
   \<and> encoder_level (projr (unet_model_3d plain_keras [8, 8, 8, 1] 1 [2, 2, 2] 1 (1 / 100) False)) 1
       = [64, 128]
   \<and> decoder_level (projr (unet_model_3d plain_keras [8, 8, 8, 1] 1 [2, 2, 2] 1 (1 / 100) False)) 1
       = [128, 128]"
proof -
  from unet_default_build [of 1 1 1 1 1 1 plain_keras "1 / 100"]
  obtain m where m: "unet_model_3d plain_keras [8, 8, 8, 1] 1 [2, 2, 2] 1 (1 / 100) False = Inr m"
    by auto
  from decoder_level_filter_counts [OF m] show ?thesis
    by (simp add: m py_int_def)
qed

text \<open>
  The claim as stated fails on the default model: decoder level 2 applies the counts
  256, 256, while encoder level 2 applied 128, 256, whose reverse is 256, 128.
\<close>

theorem decoder_mirror_counterexample:
  "unet_model_3d plain_keras [8, 8, 8, 1] 1 [2, 2, 2] 1 (1 / 100) False
       = Inr (projr (unet_model_3d plain_keras [8, 8, 8, 1] 1 [2, 2, 2] 1 (1 / 100) False))
   \<and> encoder_level (projr (unet_model_3d plain_keras [8, 8, 8, 1] 1 [2, 2, 2] 1 (1 / 100) False)) 2
       = [128, 256]
   \<and> decoder_level (projr (unet_model_3d plain_keras [8, 8, 8, 1] 1 [2, 2, 2] 1 (1 / 100) False)) 2
       = [256, 256]
   \<and> decoder_level (projr (unet_model_3d plain_keras [8, 8, 8, 1] 1 [2, 2, 2] 1 (1 / 100) False)) 2
       \<noteq> rev (encoder_level (projr (unet_model_3d plain_keras [8, 8, 8, 1] 1 [2, 2, 2] 1 (1 / 100) False)) 2)"
proof -
  from unet_default_build [of 1 1 1 1 1 1 plain_keras "1 / 100"]
  obtain m where m: "unet_model_3d plain_keras [8, 8, 8, 1] 1 [2, 2, 2] 1 (1 / 100) False = Inr m"
    by auto
  from unet_conv3d_filters(1) [OF m] show ?thesis
    by (simp add: m py_int_def encoder_level_def decoder_level_def numeral_2_eq_2)
qed

text \<open>
  Claim C5. Where \<^verbatim>\<open>keras_contrib\<close> cannot be imported, every call of \<^verbatim>\<open>get_upconv\<close> with
  \<^verbatim>\<open>deconvolution=True\<close> raises the ImportError that names both remedies. The builder calls
  it while it constructs the model and does not catch the error: with the flag set it
  returns no model for any arguments, and on an input with positive sides divisible by 8
  and a factor from 1 to 32 (the encoder is built) the error it raises is this ImportError.
\<close>

theorem get_upconv_import_error:
  assumes "\<not> keras_contrib_importable e"
  shows "get_upconv e depth nb_filters pool_size image_shape kernel_size strides True
       = Inl (ImportError
           ''Install keras_contrib in order to use deconvolution. Otherwise set deconvolution=False.'')
     \<and> unet_model_3d e input_shape f pool_size n_labels lr True \<noteq> Inr m
     \<and> (0 < x \<longrightarrow> 0 < y \<longrightarrow> 0 < z \<longrightarrow> 8 dvd x \<longrightarrow> 8 dvd y \<longrightarrow> 8 dvd z \<longrightarrow> 0 < c \<longrightarrow> 0 < f \<longrightarrow>
          f \<le> 32 \<longrightarrow>
          unet_model_3d e [x, y, z, c] f [2, 2, 2] n_labels lr True
            = Inl (ImportError
                ''Install keras_contrib in order to use deconvolution. Otherwise set deconvolution=False.''))"
proof (intro conjI impI)
  show "get_upconv e depth nb_filters pool_size image_shape kernel_size strides True
       = Inl (ImportError
           ''Install keras_contrib in order to use deconvolution. Otherwise set deconvolution=False.'')"
    using assms by (simp add: get_upconv_def import_error_message_def)
next
  show "unet_model_3d e input_shape f pool_size n_labels lr True \<noteq> Inr m"
  proof
    assume "unet_model_3d e input_shape f pool_size n_labels lr True = Inr m"
    from unet_layers [OF this] obtain up5 where
      "get_upconv e 2 (py_int (512 / of_int f)) pool_size
          (drop (length input_shape - 3) input_shape) [2, 2, 2] [2, 2, 2] True = Inr up5"
      by (elim exE conjE)
    with get_upconv_no_contrib [OF assms] show False by simp
  qed
next
  assume f: "0 < f" "f \<le> 32"
  assume "0 < x" "0 < y" "0 < z" "8 dvd x" "8 dvd y" "8 dvd z" "0 < c"
  then obtain a b k where x: "x = 8 * a" "0 < a" and y: "y = 8 * b" "0 < b"
    and z: "z = 8 * k" "0 < k"
    by (meson multiple_of_8)
  from unet_no_contrib_build [OF x(2) y(2) z(2) \<open>0 < c\<close> f assms, of n_labels lr]
  show "unet_model_3d e [x, y, z, c] f [2, 2, 2] n_labels lr True
            = Inl (ImportError
                ''Install keras_contrib in order to use deconvolution. Otherwise set deconvolution=False.'')"
    unfolding x(1) y(1) z(1) by (simp add: import_error_message_def)
qed

theorem get_upconv_import_error_witness:
  "\<not> keras_contrib_importable plain_keras
   \<and> get_upconv plain_keras 2 512 [2, 2, 2] [8, 8, 8] [2, 2, 2] [2, 2, 2] True
       = Inl (ImportError
           ''Install keras_contrib in order to use deconvolution. Otherwise set deconvolution=False.'')
   \<and> unet_model_3d plain_keras [8, 8, 8, 1] 1 [2, 2, 2] 1 (1 / 100) True
       = Inl (ImportError
           ''Install keras_contrib in order to use deconvolution. Otherwise set deconvolution=False.'')"
proof -
  have h: "\<not> keras_contrib_importable plain_keras"
    by (simp add: plain_keras_def)
  from get_upconv_import_error [OF h, where depth = 2 and nb_filters = 512
      and pool_size = "[2, 2, 2]" and image_shape = "[8, 8, 8]" and kernel_size = "[2, 2, 2]"
      and strides = "[2, 2, 2]" and x = 8 and y = 8 and z = 8 and c = 1 and f = 1
      and n_labels = 1 and lr = "1 / 100"] h
  show ?thesis by simp
qed

text \<open>
  Claim C9. The constructor of \<^verbatim>\<open>Simple3DModel\<close> passes only \<^verbatim>\<open>input_shape=DATA_SHAPE\<close>: its
  result is the builder's result at the defaults (factor 1, pool size (2, 2, 2), one label,
  learning rate 0.01, no deconvolution), stored as the object's model. Whatever the shape
  and whether or not \<^verbatim>\<open>keras_contrib\<close> can be imported, it never raises an ImportError.
\<close>

theorem Simple3DModel_init_no_import_error:
  "map_sum id model (Simple3DModel_init e DATA_SHAPE)
     = unet_model_3d e DATA_SHAPE 1 [2, 2, 2] 1 (1 / 100) False
   \<and> Simple3DModel_init e DATA_SHAPE \<noteq> Inl (ImportError msg)"
proof
  show "map_sum id model (Simple3DModel_init e DATA_SHAPE)
     = unet_model_3d e DATA_SHAPE 1 [2, 2, 2] 1 (1 / 100) False"
    by (cases "unet_model_3d e DATA_SHAPE 1 [2, 2, 2] 1 (1 / 100) False")
       (simp_all add: Simple3DModel_init_def)
next
  show "Simple3DModel_init e DATA_SHAPE \<noteq> Inl (ImportError msg)"
    using unet_no_import_error [of e DATA_SHAPE 1 "[2, 2, 2]" 1 "1 / 100" msg]
    by (auto simp: Simple3DModel_init_def bind_err_Inl_iff)
qed

theorem Simple3DModel_init_no_import_error_witness:
  "Simple3DModel_init plain_keras [8, 8, 8, 1]
     \<noteq> Inl (ImportError
           ''Install keras_contrib in order to use deconvolution. Otherwise set deconvolution=False.'')
   \<and> Simple3DModel_init plain_keras [7, 8, 8, 1]
     \<noteq> Inl (ImportError
           ''Install keras_contrib in order to use deconvolution. Otherwise set deconvolution=False.'')"
  using Simple3DModel_init_no_import_error [of plain_keras "[8, 8, 8, 1]"]
    Simple3DModel_init_no_import_error [of plain_keras "[7, 8, 8, 1]"]
  by simp



end
